theory Spec2Isabelle
  imports Complex_Main
begin

section \<open>JavaScript numbers\<close>

text \<open>
  Coordinates, deltas, grid steps and the scale factor are JavaScript numbers. The
  tracker uses \<open>NaN\<close> as the sentinel for "no previous sample", so \<open>NaN\<close> is a
  value of the model. Finite numbers are idealised as reals: rounding error, overflow,
  the infinities and negative zero are outside the model. An absent value
  (\<open>undefined\<close>) that reaches arithmetic coerces to \<open>NaN\<close> in JavaScript and is
  written \<open>NaN\<close> here.
\<close>

datatype number = NaN | Fin real

fun jadd :: "number \<Rightarrow> number \<Rightarrow> number" where
  "jadd (Fin a) (Fin b) = Fin (a + b)"
| "jadd _ _ = NaN"

fun jsub :: "number \<Rightarrow> number \<Rightarrow> number" where
  "jsub (Fin a) (Fin b) = Fin (a - b)"
| "jsub _ _ = NaN"

fun jmul :: "number \<Rightarrow> number \<Rightarrow> number" where
  "jmul (Fin a) (Fin b) = Fin (a * b)"
| "jmul _ _ = NaN"

text \<open>
  A quotient with a zero divisor is \<open>NaN\<close> for \<open>0 / 0\<close> and an infinity otherwise in
  JavaScript. The model has no infinities and yields \<open>NaN\<close>. Every statement below
  that fixes the value of a quotient has a nonzero divisor; the others hold whatever a
  quotient yields.
\<close>

fun jdiv :: "number \<Rightarrow> number \<Rightarrow> number" where
  "jdiv (Fin a) (Fin b) = (if b = 0 then NaN else Fin (a / b))"
| "jdiv _ _ = NaN"

text \<open>\<open>Math.round\<close> rounds to the nearest integer, a half towards plus infinity.\<close>

fun Math_round :: "number \<Rightarrow> number" where
  "Math_round (Fin a) = Fin (of_int \<lfloor>a + 1 / 2\<rfloor>)"
| "Math_round NaN = NaN"

fun Math_min :: "number \<Rightarrow> number \<Rightarrow> number" where
  "Math_min (Fin a) (Fin b) = Fin (min a b)"
| "Math_min _ _ = NaN"

fun Math_max :: "number \<Rightarrow> number \<Rightarrow> number" where
  "Math_max (Fin a) (Fin b) = Fin (max a b)"
| "Math_max _ _ = NaN"

text \<open>Truthiness of a number, as tested by \<open>!deltaX\<close>: zero and \<open>NaN\<close> are falsy.\<close>

fun truthy :: "number \<Rightarrow> bool" where
  "truthy (Fin a) = (a \<noteq> 0)"
| "truthy NaN = False"

text \<open>
  Modelled from the spec: \<open>isNum\<close> of \<open>utils/draggable/shims\<close> is not among the
  sources. A value counts as a number when it is present and is not the undefined
  sentinel \<open>NaN\<close>; an absent value (an optional side of a bounds rectangle that is
  not given) is not a number, which \<open>keepBelow\<close> and \<open>keepAbove\<close> below write out.
\<close>

fun isNum :: "number \<Rightarrow> bool" where
  "isNum (Fin a) = True"
| "isNum NaN = False"

text \<open>
  Modelled from the spec: \<open>findInArray\<close> of \<open>utils/draggable/shims\<close> is not among
  the sources. It yields the first element of the array that satisfies the callback,
  and nothing when there is none.
\<close>

definition findInArray :: "'a list \<Rightarrow> ('a \<Rightarrow> bool) \<Rightarrow> 'a option" where
  "findInArray array callback = find callback array"


section \<open>Events, the document and the host\<close>

text \<open>
  A touch point of a touch list: its \<open>identifier\<close> (a keyword of Isabelle, hence
  the prefix) and its viewport coordinates \<open>clientX\<close>, \<open>clientY\<close>.
\<close>

record touch =
  touch_identifier :: int
  touch_clientX :: number
  touch_clientY :: number

text \<open>
  A node on the path from an event's target up to the document root: the selectors it
  matches (what \<open>matchesSelector\<close> answers through the vendor-prefixed method it
  finds) and whether it is the tracked element.
\<close>

record dom_node =
  selectors :: "string list"
  isBaseNode :: bool

text \<open>
  A \<open>MouseTouchEvent\<close>. \<open>button\<close> is absent on touch events, the touch lists are
  absent on mouse events, and \<open>clientX\<close>, \<open>clientY\<close> are \<open>NaN\<close> where the event
  has none. \<open>target\<close> is the chain of nodes from \<open>e.target\<close> upwards along
  \<open>parentNode\<close>; \<open>targetIsNode\<close> is the answer of
  \<open>e.target instanceof ownerDocument.defaultView.Node\<close>.
\<close>

record event =
  etype :: string
  button :: "int option"
  targetIsNode :: bool
  target :: "dom_node list"
  targetTouches :: "touch list option"
  changedTouches :: "touch list option"
  clientX :: number
  clientY :: number

datatype error =
    NotMountedOnDragStart
  | UnmountedDuringEvent
  | BoundsSelectorNotFound string

text \<open>The \<open>DraggableData\<close> record handed to the callbacks (without its \<open>node\<close>).\<close>

record draggable_data =
  data_x :: number
  data_y :: number
  deltaX :: number
  deltaY :: number
  data_lastX :: number
  data_lastY :: number

text \<open>
  A callback of the host returns the literal \<open>false\<close>, returns anything else, or
  throws; in each case it may have changed the host's own state \<open>'h\<close>.
\<close>

datatype cb_result = ReturnsFalse | ReturnsOther | Raises error

type_synonym 'h handler = "event \<Rightarrow> draggable_data \<Rightarrow> 'h \<Rightarrow> cb_result \<times> 'h"

record 'h draggableCore_props =
  allowAnyClick :: bool
  disabled :: bool
  enableUserSelectHack :: bool
  onStart :: "'h handler"
  onDrag :: "'h handler"
  onStop :: "'h handler"
  onMouseDown :: "event \<Rightarrow> 'h \<Rightarrow> error option \<times> 'h"
  scale :: number
  cancel :: "string option"
  handle :: "string option"
  grid :: "(number \<times> number) option"

record event_names =
  start :: string
  move :: string
  stop :: string

definition eventsFor_touch :: event_names where
  "eventsFor_touch = \<lparr>start = ''touchstart'', move = ''touchmove'', stop = ''touchend''\<rparr>"

definition eventsFor_mouse :: event_names where
  "eventsFor_mouse = \<lparr>start = ''mousedown'', move = ''mousemove'', stop = ''mouseup''\<rparr>"

datatype listener = HandleDrag | HandleDragStop | OnTouchStart

text \<open>
  The element that anchors the coordinate conversion, chosen by the browser as
  \<open>props.offsetParent || node.offsetParent || node.ownerDocument.body\<close>: whether it
  is the body, its scroll offsets and the origin of its bounding rectangle.
\<close>

record offset_parent =
  isBody :: bool
  scrollLeft :: number
  scrollTop :: number
  rect_left :: number
  rect_top :: number

text \<open>The invocations of the host's callbacks, in order, with the record each received.\<close>

datatype call =
    CallMouseDown
  | CallStart draggable_data
  | CallDrag draggable_data
  | CallStop draggable_data

text \<open>
  A \<open>DraggableCore\<close> instance with everything its handlers read and write:
  \<^item> \<open>this.state\<close>: \<open>dragging\<close>, \<open>lastX\<close>, \<open>lastY\<close>, \<open>touchIdentifier\<close>
    (\<open>setState\<close> is an immediate update);
  \<^item> the instance fields \<open>mounted\<close> and \<open>dragEventFor\<close>;
  \<^item> the document: whether \<open>findDOMNode()\<close> yields a node, whether that node has an
    \<open>ownerDocument\<close> and the document a \<open>body\<close>, the offset parent, the listeners
    registered on the document and on the node, the style element and the
    \<open>react-draggable-transparent-selection\<close> class of the body;
  \<^item> the host's state, which only the callbacks change;
  \<^item> \<open>calls\<close>, the history of callback invocations (not a field of the source: it
    records what the handlers call, so that "no callback is invoked" can be stated).
\<close>

record 'h draggableCore =
  dragging :: bool
  lastX :: number
  lastY :: number
  touchIdentifier :: "int option"
  mounted :: bool
  dragEventFor :: event_names
  node :: bool
  ownerDocument :: bool
  body :: bool
  offsetParent :: offset_parent
  docListeners :: "(string \<times> listener) set"
  nodeListeners :: "(string \<times> listener) set"
  styleEl :: bool
  bodyClass :: bool
  host :: 'h
  calls :: "call list"

section \<open>DOM helpers (\<open>domFns\<close>)\<close>

text \<open>
  \<open>addEvent\<close> and \<open>removeEvent\<close> on the document, through
  \<open>addEventListener\<close>/\<open>removeEventListener\<close> with \<open>capture: true\<close>: registering
  a listener twice under one event name leaves one registration. Both do nothing
  without an element.
\<close>

definition addEvent :: "string \<Rightarrow> listener \<Rightarrow> 'h draggableCore \<Rightarrow> 'h draggableCore" where
  "addEvent ev handler w =
     (if \<not> ownerDocument w then w
      else w\<lparr>docListeners := insert (ev, handler) (docListeners w)\<rparr>)"

definition removeEvent :: "string \<Rightarrow> listener \<Rightarrow> 'h draggableCore \<Rightarrow> 'h draggableCore" where
  "removeEvent ev handler w =
     (if \<not> ownerDocument w then w
      else w\<lparr>docListeners := docListeners w - {(ev, handler)}\<rparr>)"

fun matchesSelectorAndParentsTo :: "dom_node list \<Rightarrow> string \<Rightarrow> bool" where
  "matchesSelectorAndParentsTo [] selector = False"
| "matchesSelectorAndParentsTo (n # ns) selector =
     (if selector \<in> set (selectors n) then True
      else if isBaseNode n then False
      else matchesSelectorAndParentsTo ns selector)"

definition getTouchIdentifier :: "event \<Rightarrow> int option" where
  "getTouchIdentifier e =
     (case targetTouches e of
        Some (t # ts) \<Rightarrow> Some (touch_identifier t)
      | _ \<Rightarrow> (case changedTouches e of
                Some (t # ts) \<Rightarrow> Some (touch_identifier t)
              | _ \<Rightarrow> None))"

definition getTouch :: "event \<Rightarrow> int \<Rightarrow> touch option" where
  "getTouch e ident =
     (case (case targetTouches e of
              None \<Rightarrow> None
            | Some ts \<Rightarrow> findInArray ts (\<lambda>t. ident = touch_identifier t)) of
        Some t \<Rightarrow> Some t
      | None \<Rightarrow> (case changedTouches e of
                  None \<Rightarrow> None
                | Some ts \<Rightarrow> findInArray ts (\<lambda>t. ident = touch_identifier t)))"

definition offsetXYFromParent ::
    "number \<times> number \<Rightarrow> offset_parent \<Rightarrow> number \<Rightarrow> number \<times> number" where
  "offsetXYFromParent evt parent sc =
     (let offsetParentRect =
            (if isBody parent then (Fin 0, Fin 0) else (rect_left parent, rect_top parent))
      in (jdiv (jsub (jadd (fst evt) (scrollLeft parent)) (fst offsetParentRect)) sc,
          jdiv (jsub (jadd (snd evt) (scrollTop parent)) (snd offsetParentRect)) sc))"

definition addUserSelectStyles :: "'h draggableCore \<Rightarrow> 'h draggableCore" where
  "addUserSelectStyles w =
     (if \<not> ownerDocument w then w
      else w\<lparr>styleEl := True, bodyClass := (if body w then True else bodyClass w)\<rparr>)"

text \<open>
  \<open>removeUserSelectStyles\<close> also empties the current selection, inside a
  \<open>try\<close> that swallows every error; the selection is not part of the model.
\<close>

definition removeUserSelectStyles :: "'h draggableCore \<Rightarrow> 'h draggableCore" where
  "removeUserSelectStyles w =
     (if \<not> ownerDocument w then w
      else w\<lparr>bodyClass := (if body w then False else bodyClass w)\<rparr>)"

section \<open>Position helpers (\<open>positionFns\<close>)\<close>

text \<open>
  \<open>getControlPosition\<close>: \<open>Inr None\<close> is the \<open>null\<close> returned for a touch that is
  not the tracked one; \<open>Inl\<close> is the error thrown by \<open>findDOMNode\<close>.
\<close>

definition getControlPosition ::
    "event \<Rightarrow> int option \<Rightarrow> ('h, 'z) draggableCore_props_scheme \<Rightarrow> 'h draggableCore
      \<Rightarrow> error + (number \<times> number) option" where
  "getControlPosition e touchId p w =
     (let touchObj = (case touchId of Some i \<Rightarrow> getTouch e i | None \<Rightarrow> None)
      in if touchId \<noteq> None \<and> touchObj = None then Inr None
         else if \<not> node w then Inl UnmountedDuringEvent
         else Inr (Some (offsetXYFromParent
                (case touchObj of
                   Some t \<Rightarrow> (touch_clientX t, touch_clientY t)
                 | None \<Rightarrow> (clientX e, clientY e))
                (offsetParent w) (scale p))))"

definition createCoreData :: "'h draggableCore \<Rightarrow> number \<Rightarrow> number \<Rightarrow> error + draggable_data" where
  "createCoreData w x y =
     (let isStart = \<not> isNum (lastX w)
      in if \<not> node w then Inl UnmountedDuringEvent
         else if isStart then
           Inr \<lparr>data_x = x, data_y = y, deltaX = Fin 0, deltaY = Fin 0,
                data_lastX = x, data_lastY = y\<rparr>
         else
           Inr \<lparr>data_x = x, data_y = y,
                deltaX = jsub x (lastX w), deltaY = jsub y (lastY w),
                data_lastX = lastX w, data_lastY = lastY w\<rparr>)"

definition snapToGrid :: "number \<times> number \<Rightarrow> number \<Rightarrow> number \<Rightarrow> number \<times> number" where
  "snapToGrid g pendingX pendingY =
     (jmul (Math_round (jdiv pendingX (fst g))) (fst g),
      jmul (Math_round (jdiv pendingY (snd g))) (snd g))"

section \<open>The pointer tracker (\<open>DraggableCore\<close>)\<close>

text \<open>
  Every handler maps the instance to the instance it leaves behind, with the error it
  threw, if any; an error leaves the state as it was at the \<open>throw\<close>. The values the
  handlers return to the browser (\<open>false\<close> or \<open>undefined\<close>) are not kept.
\<close>

definition constructor :: "'h draggableCore \<Rightarrow> 'h draggableCore" where
  "constructor w =
     w\<lparr>dragging := False, lastX := NaN, lastY := NaN, touchIdentifier := None,
       mounted := False, dragEventFor := eventsFor_mouse\<rparr>"

definition componentDidMount :: "'h draggableCore \<Rightarrow> 'h draggableCore" where
  "componentDidMount w =
     (let w1 = w\<lparr>mounted := True\<rparr>
      in if node w1
         then w1\<lparr>nodeListeners := insert (start eventsFor_touch, OnTouchStart) (nodeListeners w1)\<rparr>
         else w1)"

text \<open>\<open>x - this.state.lastX || 0\<close>: a falsy difference (zero or \<open>NaN\<close>) is replaced by 0.\<close>

definition orZero :: "number \<Rightarrow> number" where
  "orZero n = (if truthy n then n else Fin 0)"

text \<open>
  The "snap to grid" block of \<open>handleDragStop\<close>: the position the stop record is
  built from.
\<close>

definition stopPosition ::
    "('h, 'z) draggableCore_props_scheme \<Rightarrow> 'h draggableCore \<Rightarrow> number \<times> number
      \<Rightarrow> number \<times> number" where
  "stopPosition p w pos =
     (case grid p of
        None \<Rightarrow> pos
      | Some g \<Rightarrow>
          (case snapToGrid g (orZero (jsub (fst pos) (lastX w)))
                             (orZero (jsub (snd pos) (lastY w))) of
             (dX, dY) \<Rightarrow> (jadd (lastX w) dX, jadd (lastY w) dY)))"

text \<open>
  The "snap to grid" block of \<open>handleDrag\<close>: the position the move record is built
  from, or \<open>None\<close> where the handler returns at "skip useless drag".
\<close>

definition dragPosition ::
    "('h, 'z) draggableCore_props_scheme \<Rightarrow> 'h draggableCore \<Rightarrow> number \<times> number
      \<Rightarrow> (number \<times> number) option" where
  "dragPosition p w pos =
     (case grid p of
        None \<Rightarrow> Some pos
      | Some g \<Rightarrow>
          (case snapToGrid g (jsub (fst pos) (lastX w)) (jsub (snd pos) (lastY w)) of
             (dX, dY) \<Rightarrow>
               if \<not> truthy dX \<and> \<not> truthy dY then None
               else Some (jadd (lastX w) dX, jadd (lastY w) dY)))"

text \<open>
  The end of \<open>handleDragStop\<close>, after the veto check: the user-select hack is
  removed, the state is reset and the document-level listeners of the current device
  family are removed.
\<close>

definition closeSession ::
    "('h, 'z) draggableCore_props_scheme \<Rightarrow> 'h draggableCore \<Rightarrow> 'h draggableCore" where
  "closeSession p w1 =
     (let w2 = (if node w1 \<and> enableUserSelectHack p then removeUserSelectStyles w1 else w1);
          w3 = w2\<lparr>dragging := False, lastX := NaN, lastY := NaN\<rparr>
      in if node w3
         then removeEvent (stop (dragEventFor w3)) HandleDragStop
                (removeEvent (move (dragEventFor w3)) HandleDrag w3)
         else w3)"

definition handleDragStop ::
    "('h, 'z) draggableCore_props_scheme \<Rightarrow> event \<Rightarrow> 'h draggableCore
      \<Rightarrow> error option \<times> 'h draggableCore" where
  "handleDragStop p e w =
     (if \<not> dragging w then (None, w)
      else case getControlPosition e (touchIdentifier w) p w of
        Inl err \<Rightarrow> (Some err, w)
      | Inr None \<Rightarrow> (None, w)
      | Inr (Some pos) \<Rightarrow>
          (case stopPosition p w pos of
             (x, y) \<Rightarrow>
               (case createCoreData w x y of
                  Inl err \<Rightarrow> (Some err, w)
                | Inr coreEvent \<Rightarrow>
                    (case onStop p e coreEvent (host w) of
                       (shouldContinue, h) \<Rightarrow>
                         (let w1 = w\<lparr>host := h, calls := calls w @ [CallStop coreEvent]\<rparr>
                          in case shouldContinue of
                               Raises err \<Rightarrow> (Some err, w1)
                             | _ \<Rightarrow>
                                 if shouldContinue = ReturnsFalse \<or> \<not> mounted w1 then (None, w1)
                                 else (None, closeSession p w1))))))"

text \<open>
  The stop event that \<open>handleDrag\<close> synthesizes after a veto: \<open>new MouseEvent('mouseup')\<close>,
  and the \<open>initMouseEvent\<close> fallback of old browsers, which has the same fields. A
  synthesized mouse event carries no touch list, has button 0 and coordinates 0, and
  has no target.
\<close>

definition synthesized_mouseup :: event where
  "synthesized_mouseup =
     \<lparr>etype = ''mouseup'', button = Some 0, targetIsNode = False, target = [],
      targetTouches = None, changedTouches = None, clientX = Fin 0, clientY = Fin 0\<rparr>"

text \<open>
  The \<open>try\<close>/\<open>catch\<close> of \<open>handleDrag\<close>: \<open>handleDragStop\<close> is called with the
  synthesized event, and if that call throws, once more with the event built by the
  fallback.
\<close>

definition synthesizeStop ::
    "('h, 'z) draggableCore_props_scheme \<Rightarrow> 'h draggableCore
      \<Rightarrow> error option \<times> 'h draggableCore" where
  "synthesizeStop p w1 =
     (case handleDragStop p synthesized_mouseup w1 of
        (Some err, w2) \<Rightarrow> handleDragStop p synthesized_mouseup w2
      | (None, w2) \<Rightarrow> (None, w2))"

definition handleDrag ::
    "('h, 'z) draggableCore_props_scheme \<Rightarrow> event \<Rightarrow> 'h draggableCore
      \<Rightarrow> error option \<times> 'h draggableCore" where
  "handleDrag p e w =
     (case getControlPosition e (touchIdentifier w) p w of
        Inl err \<Rightarrow> (Some err, w)
      | Inr None \<Rightarrow> (None, w)
      | Inr (Some pos) \<Rightarrow>
          (case dragPosition p w pos of
             None \<Rightarrow> (None, w)
           | Some (x, y) \<Rightarrow>
               (case createCoreData w x y of
                  Inl err \<Rightarrow> (Some err, w)
                | Inr coreEvent \<Rightarrow>
                    (case onDrag p e coreEvent (host w) of
                       (shouldUpdate, h) \<Rightarrow>
                         (let w1 = w\<lparr>host := h, calls := calls w @ [CallDrag coreEvent]\<rparr>
                          in case shouldUpdate of
                               Raises err \<Rightarrow> (Some err, w1)
                             | _ \<Rightarrow>
                                 if shouldUpdate = ReturnsFalse \<or> \<not> mounted w1
                                 then synthesizeStop p w1
                                 else (None, w1\<lparr>lastX := x, lastY := y\<rparr>))))))"

text \<open>
  \<open>props.handle && ...\<close> and \<open>props.cancel && ...\<close>: an absent or empty selector is
  falsy and imposes nothing.
\<close>

definition selectorGiven :: "string option \<Rightarrow> bool" where
  "selectorGiven s = (case s of None \<Rightarrow> False | Some sel \<Rightarrow> sel \<noteq> [])"

definition matchesOpt :: "dom_node list \<Rightarrow> string option \<Rightarrow> bool" where
  "matchesOpt tgt s = (case s of None \<Rightarrow> False | Some sel \<Rightarrow> matchesSelectorAndParentsTo tgt sel)"

text \<open>
  \<open>e.preventDefault()\<close> on a \<open>touchstart\<close> acts on the event alone and is left out.
\<close>

definition handleDragStart ::
    "('h, 'z) draggableCore_props_scheme \<Rightarrow> event \<Rightarrow> 'h draggableCore
      \<Rightarrow> error option \<times> 'h draggableCore" where
  "handleDragStart p e w =
     (case onMouseDown p e (host w) of
        (thrown, h0) \<Rightarrow>
          (let w0 = w\<lparr>host := h0, calls := calls w @ [CallMouseDown]\<rparr>
           in case thrown of
                Some err \<Rightarrow> (Some err, w0)
              | None \<Rightarrow>
                  if \<not> allowAnyClick p \<and> (case button e of Some b \<Rightarrow> b \<noteq> 0 | None \<Rightarrow> False)
                  then (None, w0)
                  else if \<not> node w0 \<or> \<not> ownerDocument w0 \<or> \<not> body w0
                  then (Some NotMountedOnDragStart, w0)
                  else if disabled p \<or> \<not> targetIsNode e
                          \<or> (selectorGiven (handle p) \<and> \<not> matchesOpt (target e) (handle p))
                          \<or> (selectorGiven (cancel p) \<and> matchesOpt (target e) (cancel p))
                  then (None, w0)
                  else
                    (let touchId = getTouchIdentifier e;
                         w1 = w0\<lparr>touchIdentifier := touchId\<rparr>
                     in case getControlPosition e touchId p w1 of
                          Inl err \<Rightarrow> (Some err, w1)
                        | Inr None \<Rightarrow> (None, w1)
                        | Inr (Some (x, y)) \<Rightarrow>
                            (case createCoreData w1 x y of
                               Inl err \<Rightarrow> (Some err, w1)
                             | Inr coreEvent \<Rightarrow>
                                 (case onStart p e coreEvent (host w1) of
                                    (shouldUpdate, h) \<Rightarrow>
                                      (let w2 = w1\<lparr>host := h,
                                                    calls := calls w1 @ [CallStart coreEvent]\<rparr>
                                       in case shouldUpdate of
                                            Raises err \<Rightarrow> (Some err, w2)
                                          | _ \<Rightarrow>
                                              if shouldUpdate = ReturnsFalse \<or> \<not> mounted w2
                                              then (None, w2)
                                              else
                                                (let w3 = (if enableUserSelectHack p
                                                           then addUserSelectStyles w2 else w2);
                                                     w4 = w3\<lparr>dragging := True, lastX := x, lastY := y\<rparr>
                                                 in (None,
                                                     addEvent (stop (dragEventFor w4)) HandleDragStop
                                                       (addEvent (move (dragEventFor w4)) HandleDrag w4)))))))))"

definition DraggableCore_onMouseDown ::
    "('h, 'z) draggableCore_props_scheme \<Rightarrow> event \<Rightarrow> 'h draggableCore
      \<Rightarrow> error option \<times> 'h draggableCore" where
  "DraggableCore_onMouseDown p e w = handleDragStart p e (w\<lparr>dragEventFor := eventsFor_mouse\<rparr>)"

definition DraggableCore_onMouseUp ::
    "('h, 'z) draggableCore_props_scheme \<Rightarrow> event \<Rightarrow> 'h draggableCore
      \<Rightarrow> error option \<times> 'h draggableCore" where
  "DraggableCore_onMouseUp p e w = handleDragStop p e (w\<lparr>dragEventFor := eventsFor_mouse\<rparr>)"

definition DraggableCore_onTouchStart ::
    "('h, 'z) draggableCore_props_scheme \<Rightarrow> event \<Rightarrow> 'h draggableCore
      \<Rightarrow> error option \<times> 'h draggableCore" where
  "DraggableCore_onTouchStart p e w = handleDragStart p e (w\<lparr>dragEventFor := eventsFor_touch\<rparr>)"

definition DraggableCore_onTouchEnd ::
    "('h, 'z) draggableCore_props_scheme \<Rightarrow> event \<Rightarrow> 'h draggableCore
      \<Rightarrow> error option \<times> 'h draggableCore" where
  "DraggableCore_onTouchEnd p e w = handleDragStop p e (w\<lparr>dragEventFor := eventsFor_touch\<rparr>)"

section \<open>The position reconciler (\<open>Draggable\<close>)\<close>

text \<open>
  The measurements of an element that bounds resolution reads, already parsed to
  numbers (\<open>int\<close> of the shims is \<open>parseInt\<close>): client size, layout offset,
  paddings, margins and border widths.
\<close>

record element_box =
  clientWidth :: number
  clientHeight :: number
  offsetLeft :: number
  offsetTop :: number
  paddingLeft :: number
  paddingTop :: number
  paddingRight :: number
  paddingBottom :: number
  marginLeft :: number
  marginTop :: number
  marginRight :: number
  marginBottom :: number
  borderLeftWidth :: number
  borderTopWidth :: number
  borderRightWidth :: number
  borderBottomWidth :: number

text \<open>
  A \<open>Bounds\<close> rectangle; every side is optional. (\<open>top\<close> is a constant of HOL, so
  the sides carry a prefix.)
\<close>

record bounds_rect =
  b_left :: "number option"
  b_top :: "number option"
  b_right :: "number option"
  b_bottom :: "number option"

text \<open>The \<open>bounds\<close> property: \<open>false\<close>, a selector (or \<open>'parent'\<close>), or a rectangle.\<close>

datatype bounds_prop = BoundsFalse | BoundsSelector string | BoundsRect bounds_rect

record 'u draggable_props = "'u draggableCore_props" +
  bounds :: bounds_prop
  position :: "(number \<times> number) option"
  defaultPosition :: "number \<times> number"

text \<open>
  A \<open>Draggable\<close> instance: its \<open>this.state\<close> (\<open>dragging\<close>, \<open>x\<close> and \<open>y\<close> carry a
  prefix), what it reads from the document (whether its \<open>findDOMNode()\<close> yields a
  node, the measurements of that node, and the element a bounds selector resolves to,
  if it is an \<open>HTMLElement\<close>), and the state \<open>user\<close> of the host whose callbacks it
  forwards to.
\<close>

record 'u draggable =
  ui_dragging :: bool
  dragged :: bool
  state_x :: number
  state_y :: number
  prevPropsPosition :: "number \<times> number"
  slackX :: number
  slackY :: number
  isElementSVG :: bool
  draggable_node :: bool
  node_box :: element_box
  boundNode :: "string \<Rightarrow> element_box option"
  user :: 'u


definition innerWidth :: "element_box \<Rightarrow> number" where
  "innerWidth el = jsub (jsub (clientWidth el) (paddingLeft el)) (paddingRight el)"

definition innerHeight :: "element_box \<Rightarrow> number" where
  "innerHeight el = jsub (jsub (clientHeight el) (paddingTop el)) (paddingBottom el)"

definition outerWidth :: "element_box \<Rightarrow> number" where
  "outerWidth el = jadd (jadd (clientWidth el) (borderLeftWidth el)) (borderRightWidth el)"

definition outerHeight :: "element_box \<Rightarrow> number" where
  "outerHeight el = jadd (jadd (clientHeight el) (borderTopWidth el)) (borderBottomWidth el)"

definition cloneBounds :: "bounds_rect \<Rightarrow> bounds_rect" where
  "cloneBounds b = \<lparr>b_left = b_left b, b_top = b_top b, b_right = b_right b, b_bottom = b_bottom b\<rparr>"

text \<open>The rectangle measured from the element a selector resolves to.\<close>

definition boundsFromNode :: "element_box \<Rightarrow> element_box \<Rightarrow> bounds_rect" where
  "boundsFromNode el boundNodeEl =
     \<lparr>b_left = Some (jadd (jadd (jsub (Fin 0) (offsetLeft el)) (paddingLeft boundNodeEl))
                         (marginLeft el)),
      b_top = Some (jadd (jadd (jsub (Fin 0) (offsetTop el)) (paddingTop boundNodeEl))
                        (marginTop el)),
      b_right = Some (jsub (jadd (jsub (jsub (innerWidth boundNodeEl) (outerWidth el))
                                       (offsetLeft el))
                                 (paddingRight boundNodeEl))
                           (marginRight el)),
      b_bottom = Some (jsub (jadd (jsub (jsub (innerHeight boundNodeEl) (outerHeight el))
                                        (offsetTop el))
                                  (paddingBottom boundNodeEl))
                            (marginBottom el))\<rparr>"

text \<open>\<open>!bounds\<close>: \<open>false\<close> and the empty string are falsy.\<close>

fun boundsGiven :: "bounds_prop \<Rightarrow> bool" where
  "boundsGiven BoundsFalse = False"
| "boundsGiven (BoundsSelector s) = (s \<noteq> [])"
| "boundsGiven (BoundsRect b) = True"

text \<open>\<open>if (isNum(limit)) v = Math.min(v, limit)\<close>, and the same with \<open>Math.max\<close>.\<close>

fun keepBelow :: "number \<Rightarrow> number option \<Rightarrow> number" where
  "keepBelow v (Some limit) = (if isNum limit then Math_min v limit else v)"
| "keepBelow v None = v"

fun keepAbove :: "number \<Rightarrow> number option \<Rightarrow> number" where
  "keepAbove v (Some limit) = (if isNum limit then Math_max v limit else v)"
| "keepAbove v None = v"

text \<open>
  The last four statements of \<open>getBoundPosition\<close>: the right and bottom limits
  first, the left and top limits after them.
\<close>

definition keepWithin :: "bounds_rect \<Rightarrow> number \<Rightarrow> number \<Rightarrow> number \<times> number" where
  "keepWithin b x y =
     (let x1 = keepBelow x (b_right b);
          y1 = keepBelow y (b_bottom b);
          x2 = keepAbove x1 (b_left b);
          y2 = keepAbove y1 (b_top b)
      in (x2, y2))"

definition getBoundPosition ::
    "('u, 'z) draggable_props_scheme \<Rightarrow> 'u draggable \<Rightarrow> number \<Rightarrow> number
      \<Rightarrow> error + number \<times> number" where
  "getBoundPosition p d x y =
     (case bounds p of
        BoundsFalse \<Rightarrow> Inr (x, y)
      | BoundsSelector s \<Rightarrow>
          if s = [] then Inr (x, y)
          else if \<not> draggable_node d then Inl UnmountedDuringEvent
          else (case boundNode d s of
                  None \<Rightarrow> Inl (BoundsSelectorNotFound s)
                | Some boundNodeEl \<Rightarrow>
                    Inr (keepWithin (boundsFromNode (node_box d) boundNodeEl) x y))
      | BoundsRect b \<Rightarrow>
          if \<not> draggable_node d then Inl UnmountedDuringEvent
          else Inr (keepWithin (cloneBounds b) x y))"






section \<open>Sessions and sample values\<close>

text \<open>
  The checks of \<open>handleDragStart\<close> between the \<open>onMouseDown\<close> callback and the
  resolution of the touch identifier, on an event that passes all of them: the button
  is accepted, the element is mounted in a document with a body, dragging is not
  disabled, the target is a node inside the handle (if one is given) and outside the
  cancel selector.
\<close>

definition startAccepted ::
    "('h, 'z) draggableCore_props_scheme \<Rightarrow> event \<Rightarrow> 'h draggableCore \<Rightarrow> bool" where
  "startAccepted p e w \<longleftrightarrow>
     (allowAnyClick p \<or> (case button e of Some b \<Rightarrow> b = 0 | None \<Rightarrow> True))
     \<and> node w \<and> ownerDocument w \<and> body w
     \<and> \<not> disabled p \<and> targetIsNode e
     \<and> (selectorGiven (handle p) \<longrightarrow> matchesOpt (target e) (handle p))
     \<and> \<not> (selectorGiven (cancel p) \<and> matchesOpt (target e) (cancel p))"




text \<open>Sample callbacks, properties, events and instances.\<close>

definition proceed :: "'h handler" where
  "proceed e coreData h = (ReturnsOther, h)"

definition veto :: "'h handler" where
  "veto e coreData h = (ReturnsFalse, h)"

definition sampleProps ::
    "'h handler \<Rightarrow> 'h handler \<Rightarrow> (number \<times> number) option \<Rightarrow> 'h draggableCore_props" where
  "sampleProps dragCallback stopCallback g =
     \<lparr>allowAnyClick = False, disabled = False, enableUserSelectHack = True,
      onStart = proceed, onDrag = dragCallback, onStop = stopCallback,
      onMouseDown = (\<lambda>e h. (None, h)),
      scale = Fin 1, cancel = None, handle = None, grid = g\<rparr>"

definition sampleDraggableProps ::
    "'u handler \<Rightarrow> 'u handler \<Rightarrow> bounds_prop \<Rightarrow> 'u draggable_props" where
  "sampleDraggableProps dragCallback stopCallback bnds =
     \<lparr>allowAnyClick = False, disabled = False, enableUserSelectHack = True,
      onStart = proceed, onDrag = dragCallback, onStop = stopCallback,
      onMouseDown = (\<lambda>e h. (None, h)),
      scale = Fin 1, cancel = None, handle = None, grid = None,
      bounds = bnds, position = None, defaultPosition = (Fin 0, Fin 0)\<rparr>"

definition mouseEvent :: "string \<Rightarrow> real \<Rightarrow> real \<Rightarrow> event" where
  "mouseEvent name x y =
     \<lparr>etype = name, button = Some 0, targetIsNode = True,
      target = [\<lparr>selectors = [], isBaseNode = True\<rparr>],
      targetTouches = None, changedTouches = None, clientX = Fin x, clientY = Fin y\<rparr>"

definition touchEvent :: "string \<Rightarrow> touch list \<Rightarrow> event" where
  "touchEvent name touches =
     \<lparr>etype = name, button = None, targetIsNode = True,
      target = [\<lparr>selectors = [], isBaseNode = True\<rparr>],
      targetTouches = Some touches, changedTouches = Some touches,
      clientX = NaN, clientY = NaN\<rparr>"

definition finger :: "int \<Rightarrow> real \<Rightarrow> real \<Rightarrow> touch" where
  "finger i x y = \<lparr>touch_identifier = i, touch_clientX = Fin x, touch_clientY = Fin y\<rparr>"

text \<open>A mounted tracker with no session, in a document whose body is the offset parent.\<close>

definition idleCore :: "'h \<Rightarrow> 'h draggableCore" where
  "idleCore h =
     \<lparr>dragging = False, lastX = NaN, lastY = NaN, touchIdentifier = None,
      mounted = True, dragEventFor = eventsFor_mouse,
      node = True, ownerDocument = True, body = True,
      offsetParent = \<lparr>isBody = True, scrollLeft = Fin 0, scrollTop = Fin 0,
                      rect_left = Fin 0, rect_top = Fin 0\<rparr>,
      docListeners = {}, nodeListeners = {(''touchstart'', OnTouchStart)},
      styleEl = False, bodyClass = False, host = h, calls = []\<rparr>"

text \<open>
  A tracker in an open session of the given device family, tracking the given touch
  identifier, whose last committed position is \<open>(x, y)\<close>.
\<close>

definition openSession ::
    "event_names \<Rightarrow> int option \<Rightarrow> real \<Rightarrow> real \<Rightarrow> 'h \<Rightarrow> 'h draggableCore" where
  "openSession family touchId x y h =
     (idleCore h)\<lparr>dragging := True, lastX := Fin x, lastY := Fin y,
                  touchIdentifier := touchId, dragEventFor := family,
                  docListeners := {(move family, HandleDrag), (stop family, HandleDragStop)},
                  styleEl := True, bodyClass := True\<rparr>"

definition emptyBox :: element_box where
  "emptyBox =
     \<lparr>clientWidth = Fin 0, clientHeight = Fin 0, offsetLeft = Fin 0, offsetTop = Fin 0,
      paddingLeft = Fin 0, paddingTop = Fin 0, paddingRight = Fin 0, paddingBottom = Fin 0,
      marginLeft = Fin 0, marginTop = Fin 0, marginRight = Fin 0, marginBottom = Fin 0,
      borderLeftWidth = Fin 0, borderTopWidth = Fin 0, borderRightWidth = Fin 0,
      borderBottomWidth = Fin 0\<rparr>"

text \<open>A \<open>Draggable\<close> that is being dragged, at the given position with the given slack.\<close>

definition sampleDraggable :: "real \<Rightarrow> real \<Rightarrow> real \<Rightarrow> real \<Rightarrow> unit draggable" where
  "sampleDraggable x y sx sy =
     \<lparr>ui_dragging = True, dragged = True, state_x = Fin x, state_y = Fin y,
      prevPropsPosition = (Fin 0, Fin 0), slackX = Fin sx, slackY = Fin sy,
      isElementSVG = False, draggable_node = True, node_box = emptyBox,
      boundNode = (\<lambda>s. None), user = ()\<rparr>"





section \<open>Touch identifiers\<close>

lemma getTouch_absent:
  assumes "\<forall>ts. targetTouches e = Some ts \<longrightarrow> (\<forall>x\<in>set ts. touch_identifier x \<noteq> t)"
    and "\<forall>ts. changedTouches e = Some ts \<longrightarrow> (\<forall>x\<in>set ts. touch_identifier x \<noteq> t)"
  shows "getTouch e t = None"
proof -
  have a: "(case targetTouches e of None \<Rightarrow> None
            | Some ts \<Rightarrow> findInArray ts (\<lambda>x. t = touch_identifier x)) = None"
    using assms(1) by (auto simp: findInArray_def find_None_iff split: option.splits)
  have b: "(case changedTouches e of None \<Rightarrow> None
            | Some ts \<Rightarrow> findInArray ts (\<lambda>x. t = touch_identifier x)) = None"
    using assms(2) by (auto simp: findInArray_def find_None_iff split: option.splits)
  show ?thesis unfolding getTouch_def a b by simp
qed

lemma getTouch_of_identifier: "getTouchIdentifier e = Some t \<Longrightarrow> getTouch e t \<noteq> None"
  by (auto simp: getTouchIdentifier_def getTouch_def findInArray_def
      split: option.splits list.splits if_splits)

lemma start_position_resolves:
  "node w \<Longrightarrow> \<exists>pos. getControlPosition e (getTouchIdentifier e) p w = Inr (Some pos)"
  using getTouch_of_identifier [of e]
  by (cases "getTouchIdentifier e") (auto simp: getControlPosition_def Let_def)

text \<open>
  Claim C7. In a session that tracks the touch identifier \<open>t\<close>, a move or stop event
  whose \<open>targetTouches\<close> and \<open>changedTouches\<close> hold no touch with identifier \<open>t\<close>
  is dropped: \<open>handleDrag\<close> and \<open>handleDragStop\<close> return the instance as it was, so
  no callback is invoked (\<open>calls\<close>), \<open>lastX\<close>, \<open>lastY\<close> and \<open>dragging\<close> keep
  their values, and the host's state, which holds the visible position, is untouched.
  Delivered through the element's \<open>onTouchEnd\<close> or \<open>onMouseUp\<close>, the event changes
  \<open>dragEventFor\<close> and nothing else.
\<close>

theorem wrong_touch_dropped:
  assumes "touchIdentifier w = Some t"
    and "\<forall>ts. targetTouches e = Some ts \<longrightarrow> (\<forall>x\<in>set ts. touch_identifier x \<noteq> t)"
    and "\<forall>ts. changedTouches e = Some ts \<longrightarrow> (\<forall>x\<in>set ts. touch_identifier x \<noteq> t)"
  shows "handleDrag p e w = (None, w)
     \<and> handleDragStop p e w = (None, w)
     \<and> DraggableCore_onTouchEnd p e w = (None, w\<lparr>dragEventFor := eventsFor_touch\<rparr>)
     \<and> DraggableCore_onMouseUp p e w = (None, w\<lparr>dragEventFor := eventsFor_mouse\<rparr>)"
proof -
  have g: "getTouch e t = None" using assms(2,3) by (rule getTouch_absent)
  have c: "\<And>w'. touchIdentifier w' = Some t \<Longrightarrow>
             getControlPosition e (touchIdentifier w') p w' = Inr None"
    using g by (simp add: getControlPosition_def)
  have 1: "handleDrag p e w = (None, w)"
    using c [OF assms(1)] by (simp add: handleDrag_def)
  have 2: "\<And>w'. touchIdentifier w' = Some t \<Longrightarrow> handleDragStop p e w' = (None, w')"
    using c by (simp add: handleDragStop_def)
  show ?thesis
    using 1 2 assms(1) by (simp add: DraggableCore_onTouchEnd_def DraggableCore_onMouseUp_def)
qed

theorem wrong_touch_dropped_witness:
  "handleDrag (sampleProps proceed proceed None) (touchEvent ''touchmove'' [finger 2 50 50])
       (openSession eventsFor_touch (Some 1) 0 0 ())
     = (None, openSession eventsFor_touch (Some 1) 0 0 ())
   \<and> handleDragStop (sampleProps proceed proceed None) (touchEvent ''touchend'' [finger 2 50 50])
       (openSession eventsFor_touch (Some 1) 0 0 ())
     = (None, openSession eventsFor_touch (Some 1) 0 0 ())"
  using wrong_touch_dropped [of "openSession eventsFor_touch (Some 1) 0 0 ()" 1
      "touchEvent ''touchmove'' [finger 2 50 50]" "sampleProps proceed proceed None"]
    wrong_touch_dropped [of "openSession eventsFor_touch (Some 1) 0 0 ()" 1
      "touchEvent ''touchend'' [finger 2 50 50]" "sampleProps proceed proceed None"]
  by (simp add: openSession_def touchEvent_def finger_def)

section \<open>Facts about the helpers\<close>

lemma createCoreData_node:
  "node w \<Longrightarrow> createCoreData w x y =
     Inr (if isNum (lastX w)
          then \<lparr>data_x = x, data_y = y, deltaX = jsub x (lastX w), deltaY = jsub y (lastY w),
                data_lastX = lastX w, data_lastY = lastY w\<rparr>
          else \<lparr>data_x = x, data_y = y, deltaX = Fin 0, deltaY = Fin 0,
                data_lastX = x, data_lastY = y\<rparr>)"
  by (simp add: createCoreData_def)

lemma control_position_node:
  "getControlPosition e t p w = Inr (Some pos) \<Longrightarrow> node w"
  by (auto simp: getControlPosition_def Let_def split: if_splits)

lemma handleDragStop_idle: "\<not> dragging w \<Longrightarrow> handleDragStop p e w = (None, w)"
  by (simp add: handleDragStop_def)

lemma getControlPosition_cong:
  "node w' = node w \<Longrightarrow> offsetParent w' = offsetParent w \<Longrightarrow>
     getControlPosition e t p w' = getControlPosition e t p w"
  by (simp add: getControlPosition_def Let_def cong del: if_weak_cong)

lemma createCoreData_cong:
  "node w' = node w \<Longrightarrow> lastX w' = lastX w \<Longrightarrow> lastY w' = lastY w \<Longrightarrow>
     createCoreData w' x y = createCoreData w x y"
  by (simp add: createCoreData_def)

lemma stopPosition_cong:
  "lastX w' = lastX w \<Longrightarrow> lastY w' = lastY w \<Longrightarrow> stopPosition p w' pos = stopPosition p w pos"
  by (simp add: stopPosition_def cong del: option.case_cong_weak)

section \<open>Bounds\<close>

text \<open>
  Claim C10. For a rectangle given in numbers, \<open>getBoundPosition\<close> applies the right
  and bottom limits (\<open>Math.min\<close>) first and the left and top limits (\<open>Math.max\<close>)
  after them. So for an inverted rectangle, with \<open>left > right\<close>, every position \<open>x\<close>
  that is a number is mapped to \<open>left\<close>, and with \<open>top > bottom\<close> every \<open>y\<close> to
  \<open>top\<close>: the lower limit wins. With no bounds configured (\<open>false\<close> or the empty
  string) the position is returned as it is.
\<close>

theorem getBoundPosition_order:
  "(bounds p = BoundsRect b \<and> draggable_node d \<longrightarrow>
      getBoundPosition p d x y =
        Inr (keepAbove (keepBelow x (b_right b)) (b_left b),
             keepAbove (keepBelow y (b_bottom b)) (b_top b)))
   \<and> (bounds p = BoundsRect b \<and> draggable_node d
        \<and> b_left b = Some (Fin l) \<and> b_right b = Some (Fin r) \<and> r < l \<longrightarrow>
      (\<exists>y'. getBoundPosition p d (Fin a) y = Inr (Fin l, y')))
   \<and> (bounds p = BoundsRect b \<and> draggable_node d
        \<and> b_top b = Some (Fin t) \<and> b_bottom b = Some (Fin m) \<and> m < t \<longrightarrow>
      (\<exists>x'. getBoundPosition p d x (Fin c) = Inr (x', Fin t)))
   \<and> (\<not> boundsGiven (bounds p) \<longrightarrow> getBoundPosition p d x y = Inr (x, y))"
  by (cases "bounds p") (auto simp: getBoundPosition_def keepWithin_def cloneBounds_def Let_def)

theorem getBoundPosition_order_witness:
  "getBoundPosition
     (sampleDraggableProps proceed proceed
        (BoundsRect \<lparr>b_left = Some (Fin 100), b_top = Some (Fin 80),
                     b_right = Some (Fin 0), b_bottom = Some (Fin 20)\<rparr>))
     (sampleDraggable 0 0 0 0) (Fin 50) (Fin 50) = Inr (Fin 100, Fin 80)
   \<and> getBoundPosition (sampleDraggableProps proceed proceed BoundsFalse)
     (sampleDraggable 0 0 0 0) (Fin 50) (Fin 50) = Inr (Fin 50, Fin 50)"
  using getBoundPosition_order
     [where p = "sampleDraggableProps proceed proceed
        (BoundsRect \<lparr>b_left = Some (Fin 100), b_top = Some (Fin 80),
                     b_right = Some (Fin 0), b_bottom = Some (Fin 20)\<rparr>)"
        and b = "\<lparr>b_left = Some (Fin 100), b_top = Some (Fin 80),
                     b_right = Some (Fin 0), b_bottom = Some (Fin 20)\<rparr>"
        and d = "sampleDraggable 0 0 0 0" and x = "Fin 50" and y = "Fin 50"
        and l = 100 and r = 0 and a = 50 and t = 80 and m = 20 and c = 50]
    getBoundPosition_order
     [where p = "sampleDraggableProps proceed proceed BoundsFalse"
        and d = "sampleDraggable 0 0 0 0" and x = "Fin 50" and y = "Fin 50"]
  by (simp add: sampleDraggableProps_def sampleDraggable_def)

section \<open>Move events outside a session\<close>

text \<open>
  Claim C8, as stated, fails: \<open>handleDrag\<close> never reads \<open>dragging\<close>. On a mounted
  tracker with no session, a mouse move at \<open>(5, 5)\<close> invokes the move callback and
  sets \<open>lastX\<close>, \<open>lastY\<close> to \<open>(5, 5)\<close>.
\<close>

theorem idle_move_counterexample:
  "\<not> dragging (idleCore ())
   \<and> handleDrag (sampleProps proceed proceed None) (mouseEvent ''mousemove'' 5 5) (idleCore ())
       = (None, (idleCore ())\<lparr>lastX := Fin 5, lastY := Fin 5,
            calls := [CallDrag \<lparr>data_x = Fin 5, data_y = Fin 5, deltaX = Fin 0, deltaY = Fin 0,
                                data_lastX = Fin 5, data_lastY = Fin 5\<rparr>]\<rparr>)"
  by (simp add: handleDrag_def sampleProps_def mouseEvent_def idleCore_def getControlPosition_def
      offsetXYFromParent_def dragPosition_def createCoreData_def proceed_def)

text \<open>
  Claim C8, amended. When no session is active, a move event that reaches
  \<open>handleDrag\<close> is not filtered by the \<open>dragging\<close> flag: if its position resolves
  and grid snapping does not suppress it, the move callback is invoked once with the
  record built from that position, and unless the callback vetoes or throws, or the
  component is not mounted, \<open>lastX\<close> and \<open>lastY\<close> are set to the position. The
  \<open>dragging\<close> flag stays false. (Only the registration of the listener, made at
  drag start and undone at drag stop, keeps move events away from an idle tracker.)
\<close>

theorem idle_move_not_filtered:
  assumes "\<not> dragging w"
    and "getControlPosition e (touchIdentifier w) p w = Inr (Some pos)"
    and "dragPosition p w pos = Some (x, y)"
    and "createCoreData w x y = Inr coreEvent"
    and "onDrag p e coreEvent (host w) = (r, h)"
  shows "handleDrag p e w =
     (case r of
        Raises err \<Rightarrow> (Some err, w\<lparr>host := h, calls := calls w @ [CallDrag coreEvent]\<rparr>)
      | ReturnsFalse \<Rightarrow> (None, w\<lparr>host := h, calls := calls w @ [CallDrag coreEvent]\<rparr>)
      | ReturnsOther \<Rightarrow>
          if mounted w
          then (None, w\<lparr>host := h, calls := calls w @ [CallDrag coreEvent],
                        lastX := x, lastY := y\<rparr>)
          else (None, w\<lparr>host := h, calls := calls w @ [CallDrag coreEvent]\<rparr>))"
  using assms by (cases r) (simp_all add: handleDrag_def synthesizeStop_def handleDragStop_idle)

theorem idle_move_not_filtered_witness:
  "\<not> dragging (idleCore ())
   \<and> handleDrag (sampleProps proceed proceed None) (mouseEvent ''mousemove'' 5 5) (idleCore ())
       = (None, (idleCore ())\<lparr>host := (),
            calls := calls (idleCore ()) @
              [CallDrag \<lparr>data_x = Fin 5, data_y = Fin 5, deltaX = Fin 0, deltaY = Fin 0,
                         data_lastX = Fin 5, data_lastY = Fin 5\<rparr>],
            lastX := Fin 5, lastY := Fin 5\<rparr>)"
  using idle_move_not_filtered [of "idleCore ()" "mouseEvent ''mousemove'' 5 5"
      "sampleProps proceed proceed None" "(Fin 5, Fin 5)" "Fin 5" "Fin 5"
      "\<lparr>data_x = Fin 5, data_y = Fin 5, deltaX = Fin 0, deltaY = Fin 0,
        data_lastX = Fin 5, data_lastY = Fin 5\<rparr>" ReturnsOther "()"]
  by (simp add: sampleProps_def mouseEvent_def idleCore_def getControlPosition_def
      offsetXYFromParent_def dragPosition_def createCoreData_def proceed_def)

section \<open>Drag start\<close>

text \<open>
  Claim C9. \<open>handleDragStart\<close> stores the touch identifier it resolved from the event
  before it calls the start callback. When the event passes the checks of
  \<open>handleDragStart\<close> and the start callback returns \<open>false\<close>, the handler returns
  with \<open>touchIdentifier\<close> overwritten by the identifier of the new event (none, for a
  mouse event), while \<open>dragging\<close>, \<open>lastX\<close>, \<open>lastY\<close> and the document listeners
  are as before.
\<close>

theorem vetoed_start_commits_identifier:
  assumes "startAccepted p e w"
    and "onMouseDown p e (host w) = (None, h0)"
    and "\<forall>coreEvent. fst (onStart p e coreEvent h0) = ReturnsFalse"
  shows "\<exists>w'. handleDragStart p e w = (None, w')
     \<and> touchIdentifier w' = getTouchIdentifier e
     \<and> dragging w' = dragging w \<and> lastX w' = lastX w \<and> lastY w' = lastY w
     \<and> docListeners w' = docListeners w"
proof -
  let ?w1 = "w\<lparr>host := h0, calls := calls w @ [CallMouseDown],
                touchIdentifier := getTouchIdentifier e\<rparr>"
  have n: "node ?w1" using assms(1) by (simp add: startAccepted_def)
  obtain x y where pos: "getControlPosition e (getTouchIdentifier e) p ?w1 = Inr (Some (x, y))"
    using start_position_resolves [OF n] by (metis surj_pair)
  obtain coreEvent where cd: "createCoreData ?w1 x y = Inr coreEvent"
    using createCoreData_node [OF n, of x y] by blast
  obtain h1 where cb: "onStart p e coreEvent h0 = (ReturnsFalse, h1)"
    using assms(3) by (metis prod.collapse)
  have acc: "\<not> (\<not> allowAnyClick p \<and> (case button e of Some b \<Rightarrow> b \<noteq> 0 | None \<Rightarrow> False))"
    using assms(1) by (auto simp: startAccepted_def split: option.splits)
  have mnt: "\<not> (\<not> node w \<or> \<not> ownerDocument w \<or> \<not> body w)"
    using assms(1) by (simp add: startAccepted_def)
  have sel: "\<not> (disabled p \<or> \<not> targetIsNode e
               \<or> (selectorGiven (handle p) \<and> \<not> matchesOpt (target e) (handle p))
               \<or> (selectorGiven (cancel p) \<and> matchesOpt (target e) (cancel p)))"
    using assms(1) by (auto simp: startAccepted_def)
  have "handleDragStart p e w =
          (None, w\<lparr>host := h1, calls := calls w @ [CallMouseDown, CallStart coreEvent],
                     touchIdentifier := getTouchIdentifier e\<rparr>)"
    unfolding handleDragStart_def
    using assms(2) pos cd cb acc mnt sel by (auto simp: Let_def)
  then show ?thesis by simp
qed

theorem vetoed_start_commits_identifier_witness:
  "startAccepted (sampleProps proceed proceed None\<lparr>onStart := veto\<rparr>)
      (touchEvent ''touchstart'' [finger 7 10 10]) (openSession eventsFor_touch (Some 3) 0 0 ())
   \<and> (\<exists>w'. handleDragStart (sampleProps proceed proceed None\<lparr>onStart := veto\<rparr>)
            (touchEvent ''touchstart'' [finger 7 10 10])
            (openSession eventsFor_touch (Some 3) 0 0 ()) = (None, w')
        \<and> touchIdentifier w' = Some 7
        \<and> dragging w' \<and> lastX w' = Fin 0 \<and> lastY w' = Fin 0)"
proof -
  have "\<forall>coreEvent. fst (veto (touchEvent ''touchstart'' [finger 7 10 10]) coreEvent ()) = ReturnsFalse"
    by (simp add: veto_def)
  then show ?thesis
  using vetoed_start_commits_identifier
    [of "sampleProps proceed proceed None\<lparr>onStart := veto\<rparr>"
        "touchEvent ''touchstart'' [finger 7 10 10]" "openSession eventsFor_touch (Some 3) 0 0 ()" "()"]
  by (auto simp: startAccepted_def sampleProps_def touchEvent_def finger_def openSession_def
      idleCore_def selectorGiven_def getTouchIdentifier_def)
qed

section \<open>Drag stop\<close>

lemma closeSession_state [simp]:
  "dragging (closeSession p w) = False"
  "lastX (closeSession p w) = NaN"
  "lastY (closeSession p w) = NaN"
  by (simp_all add: closeSession_def removeEvent_def removeUserSelectStyles_def Let_def)

lemma closeSession_frame [simp]:
  "host (closeSession p w) = host w"
  "calls (closeSession p w) = calls w"
  "touchIdentifier (closeSession p w) = touchIdentifier w"
  "mounted (closeSession p w) = mounted w"
  "dragEventFor (closeSession p w) = dragEventFor w"
  "node (closeSession p w) = node w"
  "ownerDocument (closeSession p w) = ownerDocument w"
  "body (closeSession p w) = body w"
  "offsetParent (closeSession p w) = offsetParent w"
  by (simp_all add: closeSession_def removeEvent_def removeUserSelectStyles_def Let_def)

lemma closeSession_listeners:
  "node w \<Longrightarrow> ownerDocument w \<Longrightarrow>
     docListeners (closeSession p w) =
       docListeners w - {(move (dragEventFor w), HandleDrag), (stop (dragEventFor w), HandleDragStop)}"
  by (auto simp: closeSession_def removeEvent_def removeUserSelectStyles_def Let_def)

lemma closeSession_bodyClass:
  "node w \<Longrightarrow> ownerDocument w \<Longrightarrow> body w \<Longrightarrow> enableUserSelectHack p \<Longrightarrow>
     \<not> bodyClass (closeSession p w)"
  by (simp add: closeSession_def removeEvent_def removeUserSelectStyles_def Let_def)

lemma handleDragStop_result:
  assumes "dragging w"
    and "getControlPosition e (touchIdentifier w) p w = Inr (Some pos)"
    and "createCoreData w (fst (stopPosition p w pos)) (snd (stopPosition p w pos)) = Inr coreEvent"
    and "onStop p e coreEvent (host w) = (r, h)"
  shows "handleDragStop p e w =
     (case r of
        Raises err \<Rightarrow> (Some err, w\<lparr>host := h, calls := calls w @ [CallStop coreEvent]\<rparr>)
      | ReturnsFalse \<Rightarrow> (None, w\<lparr>host := h, calls := calls w @ [CallStop coreEvent]\<rparr>)
      | ReturnsOther \<Rightarrow>
          if mounted w
          then (None, closeSession p (w\<lparr>host := h, calls := calls w @ [CallStop coreEvent]\<rparr>))
          else (None, w\<lparr>host := h, calls := calls w @ [CallStop coreEvent]\<rparr>))"
  using assms by (cases r; cases "stopPosition p w pos") (simp_all add: handleDragStop_def)

text \<open>
  Claim C5, as stated, fails in its last part. A mouse session is open, with
  \<open>mousemove\<close> and \<open>mouseup\<close> registered on the document, and a \<open>touchend\<close>
  reaches the element's \<open>onTouchEnd\<close>. The handler sets \<open>dragEventFor\<close> to the
  touch family and runs the stop path; the position resolves (no touch identifier is
  tracked), the stop callback does not veto and the session is closed. The listeners
  removed are those named \<open>touchmove\<close> and \<open>touchend\<close>: the two listeners of the
  session are still registered.
\<close>

theorem cross_family_stop_counterexample:
  "DraggableCore_onTouchEnd (sampleProps proceed proceed None)
       (touchEvent ''touchend'' [finger 1 7 9]) (openSession eventsFor_mouse None 5 5 ())
     = (None, (openSession eventsFor_mouse None 5 5 ())
          \<lparr>dragging := False, lastX := NaN, lastY := NaN,
            dragEventFor := eventsFor_touch, bodyClass := False,
            calls := [CallStop \<lparr>data_x = NaN, data_y = NaN, deltaX = NaN, deltaY = NaN,
                               data_lastX = Fin 5, data_lastY = Fin 5\<rparr>]\<rparr>)
   \<and> docListeners (snd (DraggableCore_onTouchEnd (sampleProps proceed proceed None)
       (touchEvent ''touchend'' [finger 1 7 9]) (openSession eventsFor_mouse None 5 5 ())))
     = {(''mousemove'', HandleDrag), (''mouseup'', HandleDragStop)}"
  by (simp add: DraggableCore_onTouchEnd_def handleDragStop_def closeSession_def
      removeEvent_def removeUserSelectStyles_def sampleProps_def touchEvent_def finger_def
      openSession_def idleCore_def getControlPosition_def offsetXYFromParent_def
      stopPosition_def createCoreData_def proceed_def eventsFor_mouse_def eventsFor_touch_def
      Let_def)

text \<open>
  Claim C5, amended. In an active session, on a stop event whose position resolves:
  when the stop callback returns \<open>false\<close> the session stays open, \<open>dragging\<close>
  stays true, \<open>lastX\<close>, \<open>lastY\<close> are not reset and no listener is removed from
  the document. When the stop callback returns anything else the session is closed,
  \<open>dragging\<close> becomes false, \<open>lastX\<close> and \<open>lastY\<close> become \<open>NaN\<close>, the
  text-selection class is removed from the body (where the user-select hack is
  enabled), and exactly the move and stop listeners named by the device family that
  \<open>dragEventFor\<close> holds at that moment are removed from the document: the mouse
  names for a stop that arrives through \<open>onMouseUp\<close>, the touch names for one that
  arrives through \<open>onTouchEnd\<close>, and for one delivered by the document listener the
  names the tracker held before. The component is mounted in a document with a body,
  as every drag start requires.
\<close>

theorem stop_veto_keeps_session:
  assumes "dragging w" and "mounted w" and "ownerDocument w" and "body w"
    and "getControlPosition e (touchIdentifier w) p w = Inr (Some pos)"
    and "createCoreData w (fst (stopPosition p w pos)) (snd (stopPosition p w pos)) = Inr coreEvent"
    and "onStop p e coreEvent (host w) = (r, h)"
  shows "(r = ReturnsFalse \<longrightarrow>
            (\<exists>w'. handleDragStop p e w = (None, w')
               \<and> calls w' = calls w @ [CallStop coreEvent]
               \<and> dragging w' \<and> lastX w' = lastX w \<and> lastY w' = lastY w
               \<and> docListeners w' = docListeners w \<and> bodyClass w' = bodyClass w))
       \<and> (r = ReturnsOther \<longrightarrow>
            (\<exists>w'. handleDragStop p e w = (None, w')
               \<and> calls w' = calls w @ [CallStop coreEvent]
               \<and> \<not> dragging w' \<and> lastX w' = NaN \<and> lastY w' = NaN
               \<and> (enableUserSelectHack p \<longrightarrow> \<not> bodyClass w')
               \<and> docListeners w' =
                   docListeners w - {(move (dragEventFor w), HandleDrag),
                                     (stop (dragEventFor w), HandleDragStop)}))
       \<and> (r = ReturnsOther \<longrightarrow>
            (\<exists>w'. DraggableCore_onMouseUp p e w = (None, w')
               \<and> \<not> dragging w' \<and> lastX w' = NaN \<and> lastY w' = NaN
               \<and> docListeners w' =
                   docListeners w - {(''mousemove'', HandleDrag), (''mouseup'', HandleDragStop)}))
       \<and> (r = ReturnsOther \<longrightarrow>
            (\<exists>w'. DraggableCore_onTouchEnd p e w = (None, w')
               \<and> \<not> dragging w' \<and> lastX w' = NaN \<and> lastY w' = NaN
               \<and> docListeners w' =
                   docListeners w - {(''touchmove'', HandleDrag), (''touchend'', HandleDragStop)}))"
proof -
  have n: "node w" using assms(5) by (rule control_position_node)
  have fam: "\<And>f. r = ReturnsOther \<Longrightarrow>
      handleDragStop p e (w\<lparr>dragEventFor := f\<rparr>) =
        (None, closeSession p (w\<lparr>dragEventFor := f, host := h,
                                  calls := calls w @ [CallStop coreEvent]\<rparr>))"
  proof -
    fix f assume ro: "r = ReturnsOther"
    let ?w = "w\<lparr>dragEventFor := f\<rparr>"
    have 1: "dragging ?w" using assms(1) by simp
    have 2: "getControlPosition e (touchIdentifier ?w) p ?w = Inr (Some pos)"
      using assms(5) getControlPosition_cong [of ?w w e "touchIdentifier w" p] by simp
    have 3: "createCoreData ?w (fst (stopPosition p ?w pos)) (snd (stopPosition p ?w pos))
               = Inr coreEvent"
      using assms(6) stopPosition_cong [of ?w w p pos]
        createCoreData_cong [of ?w w "fst (stopPosition p w pos)" "snd (stopPosition p w pos)"]
      by simp
    have 4: "onStop p e coreEvent (host ?w) = (r, h)" using assms(7) by simp
    show "handleDragStop p e ?w =
        (None, closeSession p (w\<lparr>dragEventFor := f, host := h,
                                  calls := calls w @ [CallStop coreEvent]\<rparr>))"
      using handleDragStop_result [OF 1 2 3 4] ro assms(2) by simp
  qed
  note res = handleDragStop_result [OF assms(1) assms(5) assms(6) assms(7)]
  show ?thesis
  proof (intro conjI impI)
    assume "r = ReturnsFalse"
    then show "\<exists>w'. handleDragStop p e w = (None, w')
               \<and> calls w' = calls w @ [CallStop coreEvent]
               \<and> dragging w' \<and> lastX w' = lastX w \<and> lastY w' = lastY w
               \<and> docListeners w' = docListeners w \<and> bodyClass w' = bodyClass w"
      using res assms(1) by simp
  next
    assume "r = ReturnsOther"
    then show "\<exists>w'. handleDragStop p e w = (None, w')
               \<and> calls w' = calls w @ [CallStop coreEvent]
               \<and> \<not> dragging w' \<and> lastX w' = NaN \<and> lastY w' = NaN
               \<and> (enableUserSelectHack p \<longrightarrow> \<not> bodyClass w')
               \<and> docListeners w' =
                   docListeners w - {(move (dragEventFor w), HandleDrag),
                                     (stop (dragEventFor w), HandleDragStop)}"
      using res assms(2,3,4) n by (simp add: closeSession_listeners closeSession_bodyClass)
  next
    assume "r = ReturnsOther"
    then show "\<exists>w'. DraggableCore_onMouseUp p e w = (None, w')
               \<and> \<not> dragging w' \<and> lastX w' = NaN \<and> lastY w' = NaN
               \<and> docListeners w' =
                   docListeners w - {(''mousemove'', HandleDrag), (''mouseup'', HandleDragStop)}"
      using fam [of eventsFor_mouse] assms(3) n
      by (simp add: DraggableCore_onMouseUp_def closeSession_listeners eventsFor_mouse_def)
  next
    assume "r = ReturnsOther"
    then show "\<exists>w'. DraggableCore_onTouchEnd p e w = (None, w')
               \<and> \<not> dragging w' \<and> lastX w' = NaN \<and> lastY w' = NaN
               \<and> docListeners w' =
                   docListeners w - {(''touchmove'', HandleDrag), (''touchend'', HandleDragStop)}"
      using fam [of eventsFor_touch] assms(3) n
      by (simp add: DraggableCore_onTouchEnd_def closeSession_listeners eventsFor_touch_def)
  qed
qed

theorem stop_veto_keeps_session_witness:
  "(\<exists>w'. handleDragStop (sampleProps proceed veto None) (mouseEvent ''mouseup'' 7 9)
            (openSession eventsFor_mouse None 5 5 ()) = (None, w')
        \<and> dragging w' \<and> lastX w' = Fin 5 \<and> lastY w' = Fin 5
        \<and> docListeners w' = {(''mousemove'', HandleDrag), (''mouseup'', HandleDragStop)})
   \<and> (\<exists>w'. handleDragStop (sampleProps proceed proceed None) (mouseEvent ''mouseup'' 7 9)
            (openSession eventsFor_mouse None 5 5 ()) = (None, w')
        \<and> \<not> dragging w' \<and> lastX w' = NaN \<and> lastY w' = NaN \<and> \<not> bodyClass w'
        \<and> docListeners w' = {})
   \<and> (\<exists>w'. DraggableCore_onMouseUp (sampleProps proceed proceed None) (mouseEvent ''mouseup'' 7 9)
            (openSession eventsFor_mouse None 5 5 ()) = (None, w')
        \<and> \<not> dragging w' \<and> docListeners w' = {})
   \<and> (\<exists>w'. DraggableCore_onTouchEnd (sampleProps proceed proceed None)
            (touchEvent ''touchend'' [finger 1 7 9])
            (openSession eventsFor_touch (Some 1) 5 5 ()) = (None, w')
        \<and> \<not> dragging w' \<and> docListeners w' = {})"
  using stop_veto_keeps_session
    [of "openSession eventsFor_mouse None 5 5 ()" "mouseEvent ''mouseup'' 7 9"
        "sampleProps proceed veto None" "(Fin 7, Fin 9)"
        "\<lparr>data_x = Fin 7, data_y = Fin 9, deltaX = Fin 2, deltaY = Fin 4,
          data_lastX = Fin 5, data_lastY = Fin 5\<rparr>" ReturnsFalse "()"]
    stop_veto_keeps_session
    [of "openSession eventsFor_mouse None 5 5 ()" "mouseEvent ''mouseup'' 7 9"
        "sampleProps proceed proceed None" "(Fin 7, Fin 9)"
        "\<lparr>data_x = Fin 7, data_y = Fin 9, deltaX = Fin 2, deltaY = Fin 4,
          data_lastX = Fin 5, data_lastY = Fin 5\<rparr>" ReturnsOther "()"]
    stop_veto_keeps_session
    [of "openSession eventsFor_touch (Some 1) 5 5 ()" "touchEvent ''touchend'' [finger 1 7 9]"
        "sampleProps proceed proceed None" "(Fin 7, Fin 9)"
        "\<lparr>data_x = Fin 7, data_y = Fin 9, deltaX = Fin 2, deltaY = Fin 4,
          data_lastX = Fin 5, data_lastY = Fin 5\<rparr>" ReturnsOther "()"]
  by (auto simp: sampleProps_def mouseEvent_def touchEvent_def finger_def openSession_def
      idleCore_def getControlPosition_def getTouch_def findInArray_def offsetXYFromParent_def
      stopPosition_def createCoreData_def proceed_def veto_def eventsFor_mouse_def
      eventsFor_touch_def)

section \<open>Drag moves and grid snapping\<close>

lemma handleDragStop_calls: "\<exists>rest. calls (snd (handleDragStop p e w)) = calls w @ rest"
  by (auto simp: handleDragStop_def Let_def
      split: sum.splits option.splits prod.splits cb_result.splits)

lemma synthesizeStop_calls: "\<exists>rest. calls (snd (synthesizeStop p w)) = calls w @ rest"
proof (cases "handleDragStop p synthesized_mouseup w")
  case (Pair r w2)
  obtain r1 where 1: "calls w2 = calls w @ r1"
    using handleDragStop_calls [of p synthesized_mouseup w] Pair by auto
  obtain r2 where 2: "calls (snd (handleDragStop p synthesized_mouseup w2)) = calls w2 @ r2"
    using handleDragStop_calls by blast
  show ?thesis
    using Pair 1 2 by (cases r) (simp_all add: synthesizeStop_def)
qed

lemma handleDrag_result:
  assumes "getControlPosition e (touchIdentifier w) p w = Inr (Some pos)"
    and "dragPosition p w pos = Some (x, y)"
    and "createCoreData w x y = Inr coreEvent"
    and "onDrag p e coreEvent (host w) = (r, h)"
  shows "handleDrag p e w =
     (case r of
        Raises err \<Rightarrow> (Some err, w\<lparr>host := h, calls := calls w @ [CallDrag coreEvent]\<rparr>)
      | ReturnsFalse \<Rightarrow> synthesizeStop p (w\<lparr>host := h, calls := calls w @ [CallDrag coreEvent]\<rparr>)
      | ReturnsOther \<Rightarrow>
          if mounted w
          then (None, w\<lparr>host := h, calls := calls w @ [CallDrag coreEvent],
                        lastX := x, lastY := y\<rparr>)
          else synthesizeStop p (w\<lparr>host := h, calls := calls w @ [CallDrag coreEvent]\<rparr>))"
  using assms by (cases r) (simp_all add: handleDrag_def)

lemma handleDrag_invokes:
  assumes "getControlPosition e (touchIdentifier w) p w = Inr (Some pos)"
    and "dragPosition p w pos = Some (x, y)"
    and "createCoreData w x y = Inr coreEvent"
  shows "\<exists>rest. calls (snd (handleDrag p e w)) = calls w @ CallDrag coreEvent # rest"
proof -
  obtain r h where cb: "onDrag p e coreEvent (host w) = (r, h)" by fastforce
  let ?w1 = "w\<lparr>host := h, calls := calls w @ [CallDrag coreEvent]\<rparr>"
  obtain rest where s: "calls (snd (synthesizeStop p ?w1)) = calls ?w1 @ rest"
    using synthesizeStop_calls by blast
  show ?thesis
    using handleDrag_result [OF assms cb] s by (cases r) auto
qed

lemma round_tenth_zero: "\<lfloor>d / 10 + 1 / 2\<rfloor> = 0 \<longleftrightarrow> - 5 \<le> d \<and> d < (5::real)"
  by (auto simp: floor_eq_iff)

text \<open>
  Claim C1, as stated, fails. With grid \<open>[10, 10]\<close> and the last committed position
  \<open>(0, 0)\<close>, moves that each add \<open>(3, 3)\<close> bring the pointer to \<open>(3, 3)\<close> and then
  to \<open>(6, 6)\<close>. The first is suppressed. The second invokes the callback, with the
  snapped position \<open>(10, 10)\<close>, although the accumulated raw delta \<open>(6, 6)\<close> has
  reached no multiple of 10 on either axis: \<open>snapToGrid\<close> rounds to the nearest
  multiple.
\<close>

theorem grid_fires_early_counterexample:
  "handleDrag (sampleProps proceed proceed (Some (Fin 10, Fin 10))) (mouseEvent ''mousemove'' 3 3)
       (openSession eventsFor_mouse None 0 0 ())
     = (None, openSession eventsFor_mouse None 0 0 ())
   \<and> handleDrag (sampleProps proceed proceed (Some (Fin 10, Fin 10))) (mouseEvent ''mousemove'' 6 6)
       (openSession eventsFor_mouse None 0 0 ())
     = (None, (openSession eventsFor_mouse None 0 0 ())\<lparr>lastX := Fin 10, lastY := Fin 10,
          calls := [CallDrag \<lparr>data_x = Fin 10, data_y = Fin 10, deltaX = Fin 10, deltaY = Fin 10,
                              data_lastX = Fin 0, data_lastY = Fin 0\<rparr>]\<rparr>)"
  by (simp add: handleDrag_def sampleProps_def mouseEvent_def openSession_def idleCore_def
      getControlPosition_def offsetXYFromParent_def dragPosition_def createCoreData_def
      proceed_def snapToGrid_def)

text \<open>
  Claim C1, amended. With grid \<open>[10, 10]\<close>, a move whose raw delta since the last
  committed position lies in \<open>[-5, 5)\<close> on both axes (for instance \<open>(4, 4)\<close>, or
  the first step of \<open>(3, 3)\<close>) rounds to zero on both axes: no callback is invoked and
  the tracker is left exactly as it was. Every other move, that is, as soon as the
  accumulated raw delta rounds to a nonzero multiple of 10 on at least one axis,
  invokes the move callback, with the position and delta snapped to the grid.
\<close>

theorem grid_move_snaps:
  assumes "grid p = Some (Fin 10, Fin 10)"
    and "lastX w = Fin a" and "lastY w = Fin b"
    and "getControlPosition e (touchIdentifier w) p w = Inr (Some (Fin x, Fin y))"
  shows "(- 5 \<le> x - a \<and> x - a < 5 \<and> - 5 \<le> y - b \<and> y - b < 5 \<longrightarrow>
            handleDrag p e w = (None, w))
       \<and> (\<not> (- 5 \<le> x - a \<and> x - a < 5 \<and> - 5 \<le> y - b \<and> y - b < 5) \<longrightarrow>
            (\<exists>rest. calls (snd (handleDrag p e w)) =
               calls w @
               CallDrag \<lparr>data_x = Fin (a + 10 * of_int \<lfloor>(x - a) / 10 + 1 / 2\<rfloor>),
                         data_y = Fin (b + 10 * of_int \<lfloor>(y - b) / 10 + 1 / 2\<rfloor>),
                         deltaX = Fin (10 * of_int \<lfloor>(x - a) / 10 + 1 / 2\<rfloor>),
                         deltaY = Fin (10 * of_int \<lfloor>(y - b) / 10 + 1 / 2\<rfloor>),
                         data_lastX = Fin a, data_lastY = Fin b\<rparr> # rest))"
proof (intro conjI impI)
  assume small: "- 5 \<le> x - a \<and> x - a < 5 \<and> - 5 \<le> y - b \<and> y - b < 5"
  then have "\<lfloor>(x - a) / 10 + 1 / 2\<rfloor> = 0" and "\<lfloor>(y - b) / 10 + 1 / 2\<rfloor> = 0"
    by (simp_all add: round_tenth_zero)
  then have "dragPosition p w (Fin x, Fin y) = None"
    using assms(1,2,3) by (simp add: dragPosition_def snapToGrid_def)
  then show "handleDrag p e w = (None, w)"
    using assms(4) by (simp add: handleDrag_def)
next
  assume big: "\<not> (- 5 \<le> x - a \<and> x - a < 5 \<and> - 5 \<le> y - b \<and> y - b < 5)"
  let ?dX = "10 * of_int \<lfloor>(x - a) / 10 + 1 / 2\<rfloor> :: real"
  let ?dY = "10 * of_int \<lfloor>(y - b) / 10 + 1 / 2\<rfloor> :: real"
  have nz: "\<lfloor>(x - a) / 10 + 1 / 2\<rfloor> \<noteq> 0 \<or> \<lfloor>(y - b) / 10 + 1 / 2\<rfloor> \<noteq> 0"
    using big round_tenth_zero [of "x - a"] round_tenth_zero [of "y - b"] by blast
  have dp: "dragPosition p w (Fin x, Fin y) = Some (Fin (a + ?dX), Fin (b + ?dY))"
    using assms(1,2,3) nz by (auto simp: dragPosition_def snapToGrid_def mult.commute)
  have n: "node w" using assms(4) by (rule control_position_node)
  have cd: "createCoreData w (Fin (a + ?dX)) (Fin (b + ?dY)) =
              Inr \<lparr>data_x = Fin (a + ?dX), data_y = Fin (b + ?dY),
                   deltaX = Fin ?dX, deltaY = Fin ?dY,
                   data_lastX = Fin a, data_lastY = Fin b\<rparr>"
    using n assms(2,3) by (simp add: createCoreData_def)
  show "\<exists>rest. calls (snd (handleDrag p e w)) =
               calls w @
               CallDrag \<lparr>data_x = Fin (a + ?dX), data_y = Fin (b + ?dY),
                         deltaX = Fin ?dX, deltaY = Fin ?dY,
                         data_lastX = Fin a, data_lastY = Fin b\<rparr> # rest"
    by (rule handleDrag_invokes [OF assms(4) dp cd])
qed

theorem grid_move_snaps_witness:
  "handleDrag (sampleProps proceed proceed (Some (Fin 10, Fin 10))) (mouseEvent ''mousemove'' 4 4)
       (openSession eventsFor_mouse None 0 0 ())
     = (None, openSession eventsFor_mouse None 0 0 ())
   \<and> (\<exists>rest. calls (snd (handleDrag (sampleProps proceed proceed (Some (Fin 10, Fin 10)))
                  (mouseEvent ''mousemove'' 6 6) (openSession eventsFor_mouse None 0 0 ()))) =
         CallDrag \<lparr>data_x = Fin 10, data_y = Fin 10, deltaX = Fin 10, deltaY = Fin 10,
                   data_lastX = Fin 0, data_lastY = Fin 0\<rparr> # rest)"
  using grid_move_snaps [of "sampleProps proceed proceed (Some (Fin 10, Fin 10))"
        "openSession eventsFor_mouse None 0 0 ()" 0 0 "mouseEvent ''mousemove'' 4 4" 4 4]
    grid_move_snaps [of "sampleProps proceed proceed (Some (Fin 10, Fin 10))"
        "openSession eventsFor_mouse None 0 0 ()" 0 0 "mouseEvent ''mousemove'' 6 6" 6 6]
  by (simp add: sampleProps_def mouseEvent_def openSession_def idleCore_def
      getControlPosition_def offsetXYFromParent_def)

section \<open>Bounded moves and slack\<close>







section \<open>A veto of the move callback\<close>

lemma synthesizeStop_result:
  assumes "dragging w"
    and "getControlPosition synthesized_mouseup (touchIdentifier w) p w = Inr (Some spos)"
    and "createCoreData w (fst (stopPosition p w spos)) (snd (stopPosition p w spos)) = Inr stopEvent"
    and "onStop p synthesized_mouseup stopEvent (host w) = (r, h)"
    and "r \<noteq> ReturnsOther \<longrightarrow> r = ReturnsFalse"
  shows "synthesizeStop p w =
     (if r = ReturnsOther \<and> mounted w
      then (None, closeSession p (w\<lparr>host := h, calls := calls w @ [CallStop stopEvent]\<rparr>))
      else (None, w\<lparr>host := h, calls := calls w @ [CallStop stopEvent]\<rparr>))"
  using handleDragStop_result [OF assms(1,2,3,4)] assms(5)
  by (cases r) (simp_all add: synthesizeStop_def)

text \<open>
  Claim C2, as stated, fails. In a mouse session, a move that the move callback
  vetoes makes \<open>handleDrag\<close> call \<open>handleDragStop\<close> with the synthesized
  \<open>mouseup\<close>; the stop path asks the stop callback first, and when that callback
  returns \<open>false\<close> too, it returns before the reset: the session is still open,
  with \<open>dragging\<close> true and both document listeners registered.
\<close>

theorem move_veto_stop_veto_counterexample:
  "handleDrag (sampleProps veto veto None) (mouseEvent ''mousemove'' 5 5)
       (openSession eventsFor_mouse None 1 1 ())
     = (None, (openSession eventsFor_mouse None 1 1 ())
          \<lparr>calls := [CallDrag \<lparr>data_x = Fin 5, data_y = Fin 5, deltaX = Fin 4, deltaY = Fin 4,
                               data_lastX = Fin 1, data_lastY = Fin 1\<rparr>,
                     CallStop \<lparr>data_x = Fin 0, data_y = Fin 0, deltaX = Fin (- 1), deltaY = Fin (- 1),
                               data_lastX = Fin 1, data_lastY = Fin 1\<rparr>]\<rparr>)
   \<and> dragging (snd (handleDrag (sampleProps veto veto None) (mouseEvent ''mousemove'' 5 5)
       (openSession eventsFor_mouse None 1 1 ())))
   \<and> docListeners (snd (handleDrag (sampleProps veto veto None) (mouseEvent ''mousemove'' 5 5)
       (openSession eventsFor_mouse None 1 1 ())))
       = {(''mousemove'', HandleDrag), (''mouseup'', HandleDragStop)}"
  by (simp add: handleDrag_def synthesizeStop_def handleDragStop_def sampleProps_def
      mouseEvent_def openSession_def idleCore_def synthesized_mouseup_def
      getControlPosition_def offsetXYFromParent_def dragPosition_def stopPosition_def
      createCoreData_def veto_def eventsFor_mouse_def)

text \<open>
  In a touch session the synthesized \<open>mouseup\<close> carries no touch list, so
  \<open>getControlPosition\<close> finds no touch with the tracked identifier and the stop path
  returns before it calls the stop callback: after the vetoed move the session is as
  it was, whatever the stop callback would have answered.
\<close>

lemma touch_move_veto_not_terminated:
  "handleDrag (sampleProps veto proceed None) (touchEvent ''touchmove'' [finger 1 5 5])
       (openSession eventsFor_touch (Some 1) 0 0 ())
     = (None, (openSession eventsFor_touch (Some 1) 0 0 ())
          \<lparr>calls := [CallDrag \<lparr>data_x = Fin 5, data_y = Fin 5, deltaX = Fin 5, deltaY = Fin 5,
                               data_lastX = Fin 0, data_lastY = Fin 0\<rparr>]\<rparr>)"
  by (simp add: handleDrag_def synthesizeStop_def handleDragStop_def sampleProps_def
      touchEvent_def finger_def openSession_def idleCore_def synthesized_mouseup_def
      getControlPosition_def getTouch_def findInArray_def offsetXYFromParent_def
      dragPosition_def createCoreData_def veto_def)

text \<open>
  Claim C2, amended. In an active session that tracks no touch identifier (a mouse
  session), when the move callback returns \<open>false\<close> the move is not committed and
  \<open>handleDrag\<close> runs the stop path on a synthesized \<open>mouseup\<close>: the stop callback
  is invoked, and if it does not veto and the component is mounted, the session is
  closed, \<open>dragging\<close> is cleared, \<open>lastX\<close>, \<open>lastY\<close> are reset and the move and
  stop listeners of the current device family are removed from the document. If the
  stop callback returns \<open>false\<close>, or the component is not mounted, the stop path
  returns right after the callback and the session stays open.
\<close>

theorem move_veto_runs_stop_path:
  assumes "dragging w" and "touchIdentifier w = None" and "ownerDocument w"
    and "getControlPosition e None p w = Inr (Some pos)"
    and "dragPosition p w pos = Some (x, y)"
    and "createCoreData w x y = Inr coreEvent"
    and "onDrag p e coreEvent (host w) = (ReturnsFalse, h)"
    and "getControlPosition synthesized_mouseup None p w = Inr (Some spos)"
    and "createCoreData w (fst (stopPosition p w spos)) (snd (stopPosition p w spos)) = Inr stopEvent"
    and "onStop p synthesized_mouseup stopEvent h = (r, h')"
  shows "(r = ReturnsOther \<and> mounted w \<longrightarrow>
            (\<exists>w'. handleDrag p e w = (None, w')
               \<and> calls w' = calls w @ [CallDrag coreEvent, CallStop stopEvent]
               \<and> \<not> dragging w' \<and> lastX w' = NaN \<and> lastY w' = NaN
               \<and> (move (dragEventFor w), HandleDrag) \<notin> docListeners w'
               \<and> (stop (dragEventFor w), HandleDragStop) \<notin> docListeners w'))
       \<and> (r = ReturnsFalse \<or> (r = ReturnsOther \<and> \<not> mounted w) \<longrightarrow>
            handleDrag p e w =
              (None, w\<lparr>host := h', calls := calls w @ [CallDrag coreEvent, CallStop stopEvent]\<rparr>))"
proof -
  let ?w1 = "w\<lparr>host := h, calls := calls w @ [CallDrag coreEvent]\<rparr>"
  have n: "node w" using assms(4) by (rule control_position_node)
  have hd: "handleDrag p e w = synthesizeStop p ?w1"
    using handleDrag_result [of e w p pos x y coreEvent ReturnsFalse h] assms by simp
  have 1: "dragging ?w1" using assms(1) by simp
  have 2: "getControlPosition synthesized_mouseup (touchIdentifier ?w1) p ?w1 = Inr (Some spos)"
    using assms(2,8) getControlPosition_cong [of ?w1 w synthesized_mouseup None p] by simp
  have 3: "createCoreData ?w1 (fst (stopPosition p ?w1 spos)) (snd (stopPosition p ?w1 spos))
             = Inr stopEvent"
    using assms(9) stopPosition_cong [of ?w1 w p spos]
      createCoreData_cong [of ?w1 w "fst (stopPosition p w spos)" "snd (stopPosition p w spos)"]
    by simp
  have 4: "onStop p synthesized_mouseup stopEvent (host ?w1) = (r, h')"
    using assms(10) by simp
  show ?thesis
  proof (intro conjI impI)
    assume a: "r = ReturnsOther \<and> mounted w"
    then have "handleDrag p e w =
        (None, closeSession p (?w1\<lparr>host := h', calls := calls ?w1 @ [CallStop stopEvent]\<rparr>))"
      using hd synthesizeStop_result [OF 1 2 3 4] by simp
    then show "\<exists>w'. handleDrag p e w = (None, w')
               \<and> calls w' = calls w @ [CallDrag coreEvent, CallStop stopEvent]
               \<and> \<not> dragging w' \<and> lastX w' = NaN \<and> lastY w' = NaN
               \<and> (move (dragEventFor w), HandleDrag) \<notin> docListeners w'
               \<and> (stop (dragEventFor w), HandleDragStop) \<notin> docListeners w'"
      using n assms(3) by (simp add: closeSession_listeners)
  next
    assume a: "r = ReturnsFalse \<or> (r = ReturnsOther \<and> \<not> mounted w)"
    then show "handleDrag p e w =
              (None, w\<lparr>host := h', calls := calls w @ [CallDrag coreEvent, CallStop stopEvent]\<rparr>)"
      using hd synthesizeStop_result [OF 1 2 3 4] by auto
  qed
qed

theorem move_veto_runs_stop_path_witness:
  "(\<exists>w'. handleDrag (sampleProps veto proceed None) (mouseEvent ''mousemove'' 5 5)
            (openSession eventsFor_mouse None 1 1 ()) = (None, w')
        \<and> \<not> dragging w' \<and> lastX w' = NaN \<and> lastY w' = NaN
        \<and> (''mousemove'', HandleDrag) \<notin> docListeners w'
        \<and> (''mouseup'', HandleDragStop) \<notin> docListeners w')
   \<and> dragging (snd (handleDrag (sampleProps veto veto None) (mouseEvent ''mousemove'' 5 5)
            (openSession eventsFor_mouse None 1 1 ())))"
  using move_veto_runs_stop_path
    [of "openSession eventsFor_mouse None 1 1 ()" "mouseEvent ''mousemove'' 5 5"
        "sampleProps veto proceed None" "(Fin 5, Fin 5)" "Fin 5" "Fin 5"
        "\<lparr>data_x = Fin 5, data_y = Fin 5, deltaX = Fin 4, deltaY = Fin 4,
          data_lastX = Fin 1, data_lastY = Fin 1\<rparr>" "()" "(Fin 0, Fin 0)"
        "\<lparr>data_x = Fin 0, data_y = Fin 0, deltaX = Fin (- 1), deltaY = Fin (- 1),
          data_lastX = Fin 1, data_lastY = Fin 1\<rparr>" ReturnsOther "()"]
    move_veto_runs_stop_path
    [of "openSession eventsFor_mouse None 1 1 ()" "mouseEvent ''mousemove'' 5 5"
        "sampleProps veto veto None" "(Fin 5, Fin 5)" "Fin 5" "Fin 5"
        "\<lparr>data_x = Fin 5, data_y = Fin 5, deltaX = Fin 4, deltaY = Fin 4,
          data_lastX = Fin 1, data_lastY = Fin 1\<rparr>" "()" "(Fin 0, Fin 0)"
        "\<lparr>data_x = Fin 0, data_y = Fin 0, deltaX = Fin (- 1), deltaY = Fin (- 1),
          data_lastX = Fin 1, data_lastY = Fin 1\<rparr>" ReturnsFalse "()"]
  by (auto simp: sampleProps_def mouseEvent_def openSession_def idleCore_def
      synthesized_mouseup_def getControlPosition_def offsetXYFromParent_def dragPosition_def
      stopPosition_def createCoreData_def veto_def proceed_def eventsFor_mouse_def)

section \<open>A veto of the host behind the reconciler\<close>










section \<open>A whole session\<close>














end
